theory Spec2Isabelle
  imports Main
begin

section \<open>Data model of sbom\_generator.py\<close>

text \<open>
  The generator reads already-deserialised JSON dictionaries from the vendor API. Each
  dictionary shape is a record here. A key the source reads with \<open>d['k']\<close> is a field
  that is always present; a key it reads with \<open>d.get('k')\<close> is an \<open>option\<close> field,
  where \<open>None\<close> stands for a missing key or a JSON null. Field names follow the
  dictionary keys, prefixed where two shapes share a key.
\<close>

datatype error = UnboundLocalError | AttributeError | KeyError

datatype level = DEBUG | INFO | WARNING | ERROR

type_synonym log_record = "level \<times> string"

text \<open>The two marker objects of spdx.utils, and a field that holds a real value.\<close>

datatype 'a spdx = NoAssert | SPDXNone | Given 'a

text \<open>A local Python variable that a branch may have skipped binding.\<close>

datatype 'a local_var = Unbound | Bound 'a

record license_entry =
  lic_name :: string
  spdxName :: "string option"

record copyright_entry =
  cr_copyright :: "string option"
  cr_author :: "string option"

record dd_entry =
  dd_library :: string
  dd_name :: string
  dd_author :: "string option"

record library =
  lib_filename :: string
  lib_name :: string
  lib_version :: "string option"
  sha1 :: string
  licenses :: "license_entry list"
  copyrightReferences :: "copyright_entry list"
  references :: "(string \<times> string) list option"

text \<open>Objects of the spdx library, as the fields the generator sets on them.\<close>

record license =
  full_name :: string
  lic_identifier :: "string option"

datatype creator =
    Organization string "string spdx"
  | Tool string
  | Person string "string spdx"

record algorithm =
  alg_identifier :: string
  alg_value :: string

record package =
  p_name :: string
  p_spdx_id :: string
  download_location :: "string spdx"
  p_version :: "string spdx"
  file_name :: "string spdx"
  supplier :: "creator spdx"
  originator :: "creator spdx"
  files_analyzed :: bool
  homepage :: "string spdx"
  check_sum :: algorithm
  licenses_from_files :: "license list"
  conc_lics :: "license spdx"
  license_declared :: "license spdx"
  cr_text :: "string option list spdx"

section \<open>Helpers of the Python runtime\<close>

text \<open>Truth value of \<open>d.get('author')\<close>: None and the empty string are false.\<close>

fun truthy :: "string option \<Rightarrow> bool" where
  "truthy None = False"
| "truthy (Some s) = (s \<noteq> [])"

text \<open>Decimal rendering of a length inside an f-string.\<close>

fun str_nat :: "nat \<Rightarrow> string" where
  "str_nat n =
     (if n < 10 then [''0123456789'' ! n]
      else str_nat (n div 10) @ [''0123456789'' ! (n mod 10)])"

declare str_nat.simps [simp del]

text \<open>\<open>s.rstrip('*')\<close>: drop every trailing asterisk.\<close>

definition rstrip_star :: "string \<Rightarrow> string" where
  "rstrip_star s = rev (dropWhile (\<lambda>c. c = CHR ''*'') (rev s))"

section \<open>Author from the copyright references (lines 161-168)\<close>

definition get_author_from_cr :: "copyright_entry list \<Rightarrow> log_record list \<times> string option" where
  "get_author_from_cr copyright_references =
     (let authors = [the (cr_author a). a \<leftarrow> copyright_references, truthy (cr_author a)];
          lg = (if length authors > 1
                then [(WARNING, ''Found '' @ str_nat (length authors)
                                 @ '' authors on the lib. Will return the 1st'')]
                else if authors = [] then [(WARNING, ''No author data found on lib'')]
                else [])
      in (lg, if authors \<noteq> [] then Some (last authors) else None))"

section \<open>One package from one library (lines 102-158)\<close>

text \<open>
  \<open>dd_dict\<close> is the dictionary keyed by (library, license name). The result is the
  list of log calls made, in order, and either the exception raised or the pair
  (package, package id) returned. Line 111 binds \<open>author\<close> only when the list of
  looked-up entries is non-empty, and calls \<open>.get\<close> on its first element, which is
  None when the first key is not in the dictionary; line 113 reads \<open>author\<close>.
\<close>

definition create_package ::
  "library \<Rightarrow> (string \<times> string \<rightharpoonup> dd_entry) \<Rightarrow> log_record list \<times> (error + package \<times> string)" where
  "create_package lib dd_dict =
     (let pkg_spdx_id = ''SPDXRef-PACKAGE-'' @ lib_filename lib;
          log0 = [(DEBUG, ''Creating Package '' @ pkg_spdx_id)];
          lib_licenses = licenses lib;
          dd_keys = map (\<lambda>lic. (lib_filename lib, lic_name lic)) lib_licenses;
          dd_entities = map dd_dict dd_keys;
          lib_copyrights = copyrightReferences lib;
          author_111 =
            (if dd_entities \<noteq> []
             then (case hd dd_entities of
                     None \<Rightarrow> Inl AttributeError
                   | Some d \<Rightarrow> Inr (Bound (dd_author d)))
             else Inr Unbound)
      in case author_111 of
           Inl e \<Rightarrow> (log0, Inl e)
         | Inr Unbound \<Rightarrow> (log0, Inl UnboundLocalError)
         | Inr (Bound author_dd) \<Rightarrow>
            (let (log1, author) =
                   (if \<not> truthy author_dd
                    then (let (lg, a) = get_author_from_cr lib_copyrights
                          in ((DEBUG, ''No author found from Due Diligence data. Will to get copyright from library data'') # lg, a))
                    else ([], author_dd));
                 (log2, orig) =
                   (if truthy author
                    then ([], Given (Organization (the author) NoAssert))
                    else ([(WARNING, ''Unable to find the author of library: '' @ lib_name lib @ '' '')],
                          NoAssert));
                 copyrights = map cr_copyright lib_copyrights;
                 (log3, copyrights') =
                   (if copyrights = []
                    then ([(WARNING, ''No copyright info found for library: '' @ lib_name lib)], SPDXNone)
                    else ([], Given copyrights));
                 refs = (case references lib of None \<Rightarrow> [] | Some r \<Rightarrow> r);
                 log4 = (if refs = []
                         then [(WARNING, ''No references were found for library: '' @ lib_name lib)]
                         else []);
                 download = (if refs \<noteq> []
                             then (case map_of refs ''url'' of None \<Rightarrow> NoAssert | Some u \<Rightarrow> Given u)
                             else NoAssert);
                 lics = map (\<lambda>lic. \<lparr>full_name = lic_name lic, lic_identifier = spdxName lic\<rparr>) lib_licenses;
                 log5 = (if length lics > 1
                         then [(WARNING, ''Library '' @ lib_name lib @ '' has '' @ str_nat (length lics)
                                          @ '' licenses. Using the 1st one'')]
                         else []);
                 (log6, lics') =
                   (if lics \<noteq> []
                    then ([], Given (hd lics))
                    else ([(WARNING, ''No license found for library: '' @ lib_name lib)], SPDXNone));
                 pkg = \<lparr>p_name = lib_name lib,
                        p_spdx_id = pkg_spdx_id,
                        download_location = download,
                        p_version = (case lib_version lib of None \<Rightarrow> NoAssert | Some v \<Rightarrow> Given v),
                        file_name = Given (lib_filename lib),
                        supplier = orig,
                        originator = orig,
                        files_analyzed = False,
                        homepage = download,
                        check_sum = \<lparr>alg_identifier = ''SHA-1'', alg_value = sha1 lib\<rparr>,
                        licenses_from_files = lics,
                        conc_lics = lics',
                        license_declared = lics',
                        cr_text = copyrights'\<rparr>;
                 log7 = [(DEBUG, ''Finished creating Package '' @ pkg_spdx_id)]
             in (log0 @ log1 @ log2 @ log3 @ log4 @ log5 @ log6 @ log7, Inr (pkg, pkg_spdx_id))))"

section \<open>All packages of a scope (lines 85-99)\<close>

text \<open>
  Modelled from the spec: \<open>ws_utilities.convert_dict_list_to_dict\<close> belongs to the
  ws\_sdk package, which is not among the sources. Section 4.1 of the specification
  describes it: a mapping from (library identifier, license name) to the entry, where
  a duplicate key silently overwrites, so the last entry wins.
\<close>

definition convert_dict_list_to_dict :: "dd_entry list \<Rightarrow> (string \<times> string \<rightharpoonup> dd_entry)" where
  "convert_dict_list_to_dict lst = foldl (\<lambda>m d. m((dd_library d, dd_name d) \<mapsto> d)) Map.empty lst"

text \<open>The loop of lines 93-96, with its two accumulators; an exception ends it.\<close>

fun create_packages_loop ::
  "library list \<Rightarrow> (string \<times> string \<rightharpoonup> dd_entry) \<Rightarrow> package list \<Rightarrow> string list
     \<Rightarrow> log_record list \<times> (error + package list \<times> string list)" where
  "create_packages_loop [] dd_dict packages pkgs_spdx_ids = ([], Inr (packages, pkgs_spdx_ids))"
| "create_packages_loop (lib # libs) dd_dict packages pkgs_spdx_ids =
     (case create_package lib dd_dict of
        (lg, Inl e) \<Rightarrow> (lg, Inl e)
      | (lg, Inr (pkg, pkg_spdx_id)) \<Rightarrow>
          (let (lg', r) = create_packages_loop libs dd_dict
                            (packages @ [pkg]) (pkgs_spdx_ids @ [pkg_spdx_id])
           in (lg @ lg', r)))"

text \<open>
  The first component of the result is the caller's due-diligence list as it stands
  after the call: lines 87-88 assign to a key of each dictionary of that list.
\<close>

definition create_packages ::
  "library list \<Rightarrow> dd_entry list
     \<Rightarrow> dd_entry list \<times> log_record list \<times> (error + package list \<times> string list)" where
  "create_packages libs due_dil =
     (let log0 = [(DEBUG, ''Creating Packages entity'')];
          due_dil' = map (\<lambda>d. d\<lparr>dd_library := rstrip_star (dd_library d)\<rparr>) due_dil;
          dd_dict = convert_dict_list_to_dict due_dil';
          (lg, r) = create_packages_loop libs dd_dict [] []
      in (due_dil',
          case r of
            Inl e \<Rightarrow> (log0 @ lg, Inl e)
          | Inr res \<Rightarrow> (log0 @ lg @ [(DEBUG, ''Finished creating Packages entity'')], Inr res)))"

section \<open>Output formats and file names (lines 202-263)\<close>

text \<open>
  Values that come from the imported libraries: the list of characters
  \<open>ws_constants.INVALID_FS_CHARS\<close>, the text of an spdx \<open>Version\<close> inside an f-string,
  the licence that \<open>License.from_identifier\<close> builds, and the clock.
\<close>

record externals =
  INVALID_FS_CHARS :: "char list"
  Version_str :: "nat \<times> nat \<Rightarrow> string"
  License_from_identifier :: "string \<Rightarrow> license"
  utc_now :: string

datatype SPDXFileType = TV | RDF | XML

fun member_value :: "SPDXFileType \<Rightarrow> string \<times> string \<times> string \<times> string option" where
  "member_value TV = (''tv'', ''spdx.writers.tagvalue'', ''w'', Some ''utf-8'')"
| "member_value RDF = (''xml'', ''spdx.writers.rdf'', ''wb'', None)"
| "member_value XML = (''xml'', ''spdx.writers.xml'', ''wb'', None)"

definition suffix :: "SPDXFileType \<Rightarrow> string" where
  "suffix t = fst (member_value t)"

definition module_classpath :: "SPDXFileType \<Rightarrow> string" where
  "module_classpath t = fst (snd (member_value t))"

definition f_flags :: "SPDXFileType \<Rightarrow> string" where
  "f_flags t = fst (snd (snd (member_value t)))"

definition encoding :: "SPDXFileType \<Rightarrow> string option" where
  "encoding t = snd (snd (snd (member_value t)))"

text \<open>\<open>SPDXFileType.__members__\<close>, in definition order.\<close>

definition members :: "(string \<times> SPDXFileType) list" where
  "members = [(''TV'', TV), (''RDF'', RDF), (''XML'', XML)]"

text \<open>\<open>str.upper\<close> and \<open>str.lower\<close> on the letters of ASCII; other characters stay.\<close>

definition upper_char :: "char \<Rightarrow> char" where
  "upper_char c =
     (case map_of (zip ''abcdefghijklmnopqrstuvwxyz'' ''ABCDEFGHIJKLMNOPQRSTUVWXYZ'') c of
        None \<Rightarrow> c
      | Some u \<Rightarrow> u)"

definition lower_char :: "char \<Rightarrow> char" where
  "lower_char c =
     (case map_of (zip ''ABCDEFGHIJKLMNOPQRSTUVWXYZ'' ''abcdefghijklmnopqrstuvwxyz'') c of
        None \<Rightarrow> c
      | Some l \<Rightarrow> l)"

definition upper :: "string \<Rightarrow> string" where
  "upper s = map upper_char s"

definition lower :: "string \<Rightarrow> string" where
  "lower s = map lower_char s"

text \<open>
  \<open>cls.__dict__[f_t.upper()]\<close>: the only keys of the class dictionary without a
  lower-case letter are the three member names, so any other string is a KeyError.
\<close>

definition get_file_type :: "string \<Rightarrow> error + SPDXFileType" where
  "get_file_type f_t = (case map_of members (upper f_t) of None \<Rightarrow> Inl KeyError | Some t \<Rightarrow> Inr t)"

text \<open>\<open>filename.replace(char, "_")\<close> for one character, then the loop over all of them.\<close>

definition replace_char :: "char \<Rightarrow> string \<Rightarrow> string" where
  "replace_char ch filename = map (\<lambda>c. if c = ch then CHR ''_'' else c) filename"

definition replace_invalid_chars :: "externals \<Rightarrow> string \<Rightarrow> log_record list \<times> string" where
  "replace_invalid_chars ext filename =
     (let old_name = filename;
          filename' = foldl (\<lambda>f ch. replace_char ch f) filename (INVALID_FS_CHARS ext)
      in ([(DEBUG, ''Original name:'' @ [CHR 0x27] @ old_name @ [CHR 0x27] @ '' Fixed filename: ''
                   @ [CHR 0x27] @ filename' @ [CHR 0x27])],
          filename'))"

text \<open>\<open>os.path.join\<close> of two components, as posixpath defines it.\<close>

definition path_join :: "string \<Rightarrow> string \<Rightarrow> string" where
  "path_join a b =
     (if b \<noteq> [] \<and> hd b = CHR ''/'' then b
      else if a = [] \<or> last a = CHR ''/'' then a @ b
      else a @ ''/'' @ b)"

section \<open>The document (lines 31-82)\<close>

datatype relationship = Relationship string

record creation_info =
  created :: "string option"
  creators :: "creator list"

record document =
  d_name :: string
  d_namespace :: string
  d_spdx_id :: string
  d_version :: "nat \<times> nat"
  data_license :: license
  d_creation_info :: creation_info
  d_packages :: "package list"
  d_relationships :: "relationship list"

record scope =
  sc_type :: string
  sc_name :: string

text \<open>
  The answers of the vendor connection that \<open>create_sbom_doc\<close> asks for, and the
  parsed command line: \<open>conn\<close> is \<open>args.ws_conn\<close> and \<open>out_type\<close> is \<open>args.type\<close>.
\<close>

record ws_conn =
  get_scope_by_token :: "string \<Rightarrow> scope"
  get_scope_name_by_token :: "string \<Rightarrow> string"
  get_name :: string
  get_due_diligence :: "string \<Rightarrow> dd_entry list"
  get_licenses :: "string \<Rightarrow> library list"

record args =
  conn :: ws_conn
  extra :: string
  extra_conf :: "string \<rightharpoonup> string"
  out_type :: string
  out_dir :: string

text \<open>\<open>d.get(key, default)\<close> on the configuration dictionary.\<close>

definition dict_get :: "(string \<rightharpoonup> string) \<Rightarrow> string \<Rightarrow> string \<Rightarrow> string" where
  "dict_get d k dflt = (case d k of None \<Rightarrow> dflt | Some v \<Rightarrow> v)"

definition create_document ::
  "externals \<Rightarrow> string \<Rightarrow> string \<Rightarrow> log_record list \<times> document \<times> string" where
  "create_document ext scope_name namespace =
     (let doc_spdx_id = ''SPDXRef-DOCUMENT'';
          doc = \<lparr>d_name = ''WhiteSource '' @ scope_name @ '' SBOM report'',
                 d_namespace = namespace,
                 d_spdx_id = doc_spdx_id,
                 d_version = (2, 2),
                 data_license = License_from_identifier ext ''CC0-1.0'',
                 d_creation_info = \<lparr>created = None, creators = []\<rparr>,
                 d_packages = [],
                 d_relationships = []\<rparr>
      in ([(DEBUG, ''Creating SBOM Document entity''), (DEBUG, ''Finished SBOM Document entity'')],
          doc, doc_spdx_id))"

definition create_creation_info ::
  "externals \<Rightarrow> string \<Rightarrow> string \<Rightarrow> string \<Rightarrow> string \<Rightarrow> log_record list \<times> creation_info" where
  "create_creation_info ext org_name org_email person_name person_email =
     (let ci = \<lparr>created = Some (utc_now ext), creators = []\<rparr>;
          org = Organization org_name (Given org_email);
          tool = Tool ''White Source SBOM Report Generator'';
          person = Person person_name (Given person_email);
          ci = ci\<lparr>creators := creators ci @ [org]\<rparr>;
          ci = ci\<lparr>creators := creators ci @ [tool]\<rparr>;
          ci = ci\<lparr>creators := creators ci @ [person]\<rparr>
      in ([(DEBUG, ''Creating Creation Info entity''), (DEBUG, ''Finished creating Creation Info entity'')],
          ci))"

section \<open>Writing the report (lines 211-232)\<close>

text \<open>
  A write is recorded as the pair (path opened, writer module). Both open modes of the
  enumeration truncate, so a later write to the same path replaces the earlier file.
  Failures of the file system and of the module import are outside the model.
\<close>

definition write_file ::
  "externals \<Rightarrow> args \<Rightarrow> document \<Rightarrow> string
     \<Rightarrow> log_record list \<times> (string \<times> string) list \<times> (error + string)" where
  "write_file ext a doc file_type =
     (let log0 = [(INFO, ''Saving report in '' @ file_type @ '' format'')]
      in case get_file_type file_type of
           Inl e \<Rightarrow> (log0, [], Inl e)
         | Inr spdx_file_type \<Rightarrow>
            (let (log1, report_filename) =
                   replace_invalid_chars ext
                     (d_name doc @ ''-'' @ Version_str ext (d_version doc) @ ''.'' @ suffix spdx_file_type);
                 full_path = path_join (out_dir a) report_filename;
                 log2 = [(DEBUG, ''Writing file: '' @ full_path @ '' in format: '' @ file_type)]
             in (log0 @ log1 @ log2, [(full_path, module_classpath spdx_file_type)], Inr full_path)))"

fun write_report_loop ::
  "externals \<Rightarrow> args \<Rightarrow> document \<Rightarrow> string list \<Rightarrow> string list
     \<Rightarrow> log_record list \<times> (string \<times> string) list \<times> (error + string list)" where
  "write_report_loop ext a doc [] full_paths = ([], [], Inr full_paths)"
| "write_report_loop ext a doc (f_type # f_types) full_paths =
     (case write_file ext a doc f_type of
        (lg, wr, Inl e) \<Rightarrow> (lg, wr, Inl e)
      | (lg, wr, Inr full_path) \<Rightarrow>
          (let (lg', wr', r) = write_report_loop ext a doc f_types (full_paths @ [full_path])
           in (lg @ lg', wr @ wr', r)))"

definition write_report ::
  "externals \<Rightarrow> args \<Rightarrow> document \<Rightarrow> string
     \<Rightarrow> log_record list \<times> (string \<times> string) list \<times> (error + string list)" where
  "write_report ext a doc file_type =
     (let f_types = (if file_type = ''all'' then map (\<lambda>f_t. lower f_t) (map fst members)
                     else [file_type])
      in write_report_loop ext a doc f_types [])"

section \<open>One document per scope (lines 31-53)\<close>

text \<open>
  Lines 32-48 assemble the document in memory; lines 50-53 write it and return the
  paths. The model keeps the two parts apart, so that the assembled document can be
  spoken of whether or not a later write raises.
\<close>

definition create_sbom_doc_assemble ::
  "externals \<Rightarrow> args \<Rightarrow> string \<Rightarrow> log_record list \<times> (error + document)" where
  "create_sbom_doc_assemble ext a scope_token =
     (let scope = get_scope_by_token (conn a) scope_token;
          log0 = [(INFO, ''Creating SBOM Document from WhiteSource '' @ sc_type scope @ '' '' @ sc_name scope)];
          scope_name = get_scope_name_by_token (conn a) scope_token;
          namespace = dict_get (extra_conf a) ''namespace''
                        ''http://[CreatorWebsite]/[pathToSpdx]/[DocumentName]-[UUID]'';
          (log1, doc, doc_spdx_id) = create_document ext scope_name namespace;
          (log2, ci) = create_creation_info ext (get_name (conn a))
                         (dict_get (extra_conf a) ''org_email'' ''ORG_EMAIL'')
                         (dict_get (extra_conf a) ''person'' ''PERSON'')
                         (dict_get (extra_conf a) ''person_email'' ''PERSON_EMAIL'');
          doc = doc\<lparr>d_creation_info := ci\<rparr>;
          due_dil = get_due_diligence (conn a) scope_token;
          libs_from_lic_report = get_licenses (conn a) scope_token;
          (due_dil', log3, r) = create_packages libs_from_lic_report due_dil
      in case r of
           Inl e \<Rightarrow> (log0 @ log1 @ log2 @ log3, Inl e)
         | Inr (pkgs, pkgs_spdx_ids) \<Rightarrow>
            (let doc = doc\<lparr>d_packages := pkgs\<rparr>;
                 doc = doc\<lparr>d_relationships :=
                         foldl (\<lambda>rels pkg_id.
                                  rels @ [Relationship (pkg_id @ '' DESCRIBED_BY '' @ doc_spdx_id)])
                               (d_relationships doc) pkgs_spdx_ids\<rparr>
             in (log0 @ log1 @ log2 @ log3, Inr doc)))"

text \<open>
  The result holds the log, the files written and, when nothing was raised, the
  document handed to the writers together with the returned list of paths.
\<close>

definition create_sbom_doc ::
  "externals \<Rightarrow> args \<Rightarrow> string
     \<Rightarrow> log_record list \<times> (string \<times> string) list \<times> (error + document \<times> string list)" where
  "create_sbom_doc ext a scope_token =
     (let scope = get_scope_by_token (conn a) scope_token;
          (lg, r) = create_sbom_doc_assemble ext a scope_token
      in case r of
           Inl e \<Rightarrow> (lg, [], Inl e)
         | Inr doc \<Rightarrow>
            (let (log4, written, w) = write_report ext a doc (out_type a)
             in case w of
                  Inl e \<Rightarrow> (lg @ log4, written, Inl e)
                | Inr file_path \<Rightarrow>
                    (lg @ log4 @ [(INFO, ''Finished report: '' @ sc_type scope)],
                     written, Inr (doc, file_path))))"

section \<open>Loading the extra configuration (lines 171-183)\<close>

text \<open>
  The body of the \<open>try\<close> calls \<open>open\<close>, \<open>fp.read\<close> and \<open>json.loads\<close>. Their answers
  are parameters: \<open>open_read path\<close> is the text of the file, or the exception that
  \<open>open\<close> or \<open>fp.read\<close> raises; \<open>json_loads text\<close> is the parsed object, or None when
  \<open>json.loads\<close> raises JSONDecodeError. The two handlers catch FileNotFoundError and
  JSONDecodeError only; any other exception leaves \<open>init\<close>, which \<open>main\<close> calls outside
  any \<open>try\<close> (line 269). A parsed value is taken to be a JSON object with string
  values. The vendor connection that \<open>init\<close> also opens is carried by the record
  \<open>args\<close> from the start.
\<close>

datatype exn =
    FileNotFoundError
  | IsADirectoryError
  | PermissionError
  | UnicodeDecodeError
  | JSONDecodeError

record runtime =
  open_read :: "string \<Rightarrow> exn + string"
  json_loads :: "string \<Rightarrow> (string \<rightharpoonup> string) option"

definition init :: "runtime \<Rightarrow> args \<Rightarrow> log_record list \<times> (exn + args)" where
  "init rt a =
     (let a = a\<lparr>extra_conf := Map.empty\<rparr>;
          body = (case open_read rt (extra a) of
                    Inl e \<Rightarrow> Inl e
                  | Inr text \<Rightarrow>
                      (case json_loads rt text of
                         None \<Rightarrow> Inl JSONDecodeError
                       | Some conf \<Rightarrow> Inr conf))
      in case body of
           Inr conf \<Rightarrow> ([], Inr (a\<lparr>extra_conf := conf\<rparr>))
         | Inl FileNotFoundError \<Rightarrow>
             ([(WARNING, extra a @ '' configuration file was not found'')], Inr a)
         | Inl JSONDecodeError \<Rightarrow>
             ([(ERROR, ''Unable to parse file: '' @ extra a)], Inr a)
         | Inl e \<Rightarrow> ([], Inl e))"


section \<open>The claim of the specification about due-diligence authors, in its own words\<close>

text \<open>
  Sections 4.2 and 8 of the specification: look every (library id, license name) key
  up, collect the matches, and take the author of the first match, in key order, that
  carries a non-empty author. This function is the specification's reading; it is
  compared with \<open>create_package\<close> below and is not part of the program.
\<close>

definition spec_first_dd_author :: "library \<Rightarrow> (string \<times> string \<rightharpoonup> dd_entry) \<Rightarrow> string option" where
  "spec_first_dd_author lib dd_dict =
     (case filter (\<lambda>d. truthy (dd_author d))
             (List.map_filter (\<lambda>lic. dd_dict (lib_filename lib, lic_name lic)) (licenses lib)) of
        [] \<Rightarrow> None
      | d # _ \<Rightarrow> dd_author d)"

section \<open>Example inputs\<close>

definition MIT :: license_entry where
  "MIT = \<lparr>lic_name = ''MIT'', spdxName = Some ''MIT''\<rparr>"

definition Apache :: license_entry where
  "Apache = \<lparr>lic_name = ''Apache-2.0'', spdxName = Some ''Apache-2.0''\<rparr>"

definition cr_by :: "string \<Rightarrow> copyright_entry" where
  "cr_by a = \<lparr>cr_copyright = Some (''Copyright '' @ a), cr_author = Some a\<rparr>"

definition foo_jar :: "license_entry list \<Rightarrow> copyright_entry list \<Rightarrow> library" where
  "foo_jar lics crs =
     \<lparr>lib_filename = ''foo-1.0.jar'', lib_name = ''foo'', lib_version = Some ''1.0'',
      sha1 = ''abc123'', licenses = lics, copyrightReferences = crs, references = None\<rparr>"

definition foo_jar_rebuilt :: library where
  "foo_jar_rebuilt =
     \<lparr>lib_filename = ''foo-1.0.jar'', lib_name = ''foo-rebuilt'', lib_version = Some ''1.0'',
      sha1 = ''def456'', licenses = [MIT], copyrightReferences = [], references = None\<rparr>"

definition bar_jar :: library where
  "bar_jar =
     \<lparr>lib_filename = ''bar-2.0.jar'', lib_name = ''bar'', lib_version = None,
      sha1 = ''0a1b2c'', licenses = [Apache], copyrightReferences = [cr_by ''Bob''],
      references = Some [(''url'', ''https://example.org/bar'')]\<rparr>"

definition dd :: "string \<Rightarrow> string \<Rightarrow> string option \<Rightarrow> dd_entry" where
  "dd l n a = \<lparr>dd_library = l, dd_name = n, dd_author = a\<rparr>"

definition example_due_dil :: "dd_entry list" where
  "example_due_dil =
     [dd ''foo-1.0.jar*'' ''MIT'' (Some ''Acme Corp''),
      dd ''bar-2.0.jar'' ''Apache-2.0'' None]"

definition example_externals :: externals where
  "example_externals =
     \<lparr>INVALID_FS_CHARS = '':*<>/?|'',
      Version_str = (\<lambda>(major, minor). ''SPDX-'' @ str_nat major @ ''.'' @ str_nat minor),
      License_from_identifier = (\<lambda>i. \<lparr>full_name = i, lic_identifier = Some i\<rparr>),
      utc_now = ''2021-06-01T00:00:00Z''\<rparr>"

definition example_conn :: "library list \<Rightarrow> ws_conn" where
  "example_conn libs =
     \<lparr>get_scope_by_token = (\<lambda>t. \<lparr>sc_type = ''project'', sc_name = ''Demo''\<rparr>),
      get_scope_name_by_token = (\<lambda>t. ''Demo''),
      get_name = ''Example Org'',
      get_due_diligence = (\<lambda>t. example_due_dil),
      get_licenses = (\<lambda>t. libs)\<rparr>"

definition example_args :: "library list \<Rightarrow> args" where
  "example_args libs =
     \<lparr>conn = example_conn libs, extra = ''sbom_extra.json'',
      extra_conf = [''namespace'' \<mapsto> ''http://example.org/sbom''],
      out_type = ''all'', out_dir = ''/out''\<rparr>"

definition example_doc :: document where
  "example_doc = fst (snd (create_document example_externals ''Demo'' ''http://example.org/sbom''))"

definition runtime_raising :: "exn \<Rightarrow> runtime" where
  "runtime_raising e = \<lparr>open_read = (\<lambda>path. Inl e), json_loads = (\<lambda>text. None)\<rparr>"

definition runtime_malformed :: runtime where
  "runtime_malformed = \<lparr>open_read = (\<lambda>path. Inr ''{namespace''), json_loads = (\<lambda>text. None)\<rparr>"

section \<open>Facts about package creation\<close>

lemma comprehension_map_filter:
  "concat (map (\<lambda>a. if P a then [f a] else []) xs) = map f (filter P xs)"
  by (induction xs) simp_all

lemma get_author_from_cr_last:
  "snd (get_author_from_cr crs) =
     (let authors = map (\<lambda>a. the (cr_author a)) (filter (\<lambda>a. truthy (cr_author a)) crs)
      in if authors = [] then None else Some (last authors))"
  by (simp add: get_author_from_cr_def Let_def comprehension_map_filter)

lemma create_package_no_licenses:
  "licenses lib = [] \<Longrightarrow>
   create_package lib dd_dict =
     ([(DEBUG, ''Creating Package SPDXRef-PACKAGE-'' @ lib_filename lib)], Inl UnboundLocalError)"
  by (simp add: create_package_def)

lemma create_package_first_key_missing:
  "licenses lib = lic # rest \<Longrightarrow> dd_dict (lib_filename lib, lic_name lic) = None \<Longrightarrow>
   create_package lib dd_dict =
     ([(DEBUG, ''Creating Package SPDXRef-PACKAGE-'' @ lib_filename lib)], Inl AttributeError)"
  by (simp add: create_package_def)

lemma create_package_first_key_found:
  assumes "licenses lib = lic # rest" and "dd_dict (lib_filename lib, lic_name lic) = Some d"
  shows "\<exists>lg pkg. create_package lib dd_dict = (lg, Inr (pkg, ''SPDXRef-PACKAGE-'' @ lib_filename lib))
           \<and> p_spdx_id pkg = ''SPDXRef-PACKAGE-'' @ lib_filename lib
           \<and> licenses_from_files pkg
               = map (\<lambda>l. \<lparr>full_name = lic_name l, lic_identifier = spdxName l\<rparr>) (licenses lib)
           \<and> conc_lics pkg = Given \<lparr>full_name = lic_name lic, lic_identifier = spdxName lic\<rparr>
           \<and> license_declared pkg = Given \<lparr>full_name = lic_name lic, lic_identifier = spdxName lic\<rparr>
           \<and> supplier pkg = originator pkg
           \<and> (if truthy (dd_author d)
               then originator pkg = Given (Organization (the (dd_author d)) NoAssert)
               else originator pkg =
                      (let a = snd (get_author_from_cr (copyrightReferences lib))
                       in if truthy a then Given (Organization (the a) NoAssert) else NoAssert))"
  using assms
  by (simp add: create_package_def Let_def split_beta)

lemma create_package_id:
  assumes "create_package lib dd_dict = (lg, Inr (pkg, pid))"
  shows "pid = ''SPDXRef-PACKAGE-'' @ lib_filename lib \<and> p_spdx_id pkg = pid"
proof (cases "licenses lib")
  case Nil
  from create_package_no_licenses [OF Nil, of dd_dict] assms show ?thesis by simp
next
  case (Cons lic rest)
  show ?thesis
  proof (cases "dd_dict (lib_filename lib, lic_name lic)")
    case None
    from create_package_first_key_missing [of lib lic rest dd_dict] Cons None assms
    show ?thesis by simp
  next
    case (Some d)
    from create_package_first_key_found [of lib lic rest dd_dict d] Cons Some
    obtain lg' pkg' where
      "create_package lib dd_dict = (lg', Inr (pkg', ''SPDXRef-PACKAGE-'' @ lib_filename lib))"
      and "p_spdx_id pkg' = ''SPDXRef-PACKAGE-'' @ lib_filename lib"
      by auto
    with assms show ?thesis by simp
  qed
qed

lemma create_package_returns_iff:
  "(\<exists>lg pkg pid. create_package lib dd_dict = (lg, Inr (pkg, pid))) \<longleftrightarrow>
   (licenses lib \<noteq> [] \<and> dd_dict (lib_filename lib, lic_name (hd (licenses lib))) \<noteq> None)"
proof (cases "licenses lib")
  case Nil
  then show ?thesis by (simp add: create_package_no_licenses)
next
  case (Cons lic rest)
  show ?thesis
  proof (cases "dd_dict (lib_filename lib, lic_name lic)")
    case None
    with Cons show ?thesis by (simp add: create_package_first_key_missing)
  next
    case (Some d)
    from create_package_first_key_found [of lib lic rest dd_dict d] Cons Some
    show ?thesis by auto
  qed
qed

lemma create_packages_loop_ids:
  "create_packages_loop libs dd_dict pkgs ids = (lg, Inr (pkgs', ids')) \<Longrightarrow>
   ids' = ids @ map (\<lambda>l. ''SPDXRef-PACKAGE-'' @ lib_filename l) libs
   \<and> map p_spdx_id pkgs' = map p_spdx_id pkgs @ map (\<lambda>l. ''SPDXRef-PACKAGE-'' @ lib_filename l) libs"
proof (induction libs arbitrary: pkgs ids lg)
  case Nil
  then show ?case by simp
next
  case (Cons lib libs)
  obtain lg1 r1 where r1: "create_package lib dd_dict = (lg1, r1)"
    by (cases "create_package lib dd_dict")
  show ?case
  proof (cases r1)
    case (Inl e)
    with Cons.prems r1 show ?thesis by simp
  next
    case (Inr pr)
    obtain pkg pid where pr: "pr = (pkg, pid)" by (cases pr)
    obtain lg2 r2 where
      r2: "create_packages_loop libs dd_dict (pkgs @ [pkg]) (ids @ [pid]) = (lg2, r2)"
      by (cases "create_packages_loop libs dd_dict (pkgs @ [pkg]) (ids @ [pid])")
    from Cons.prems r1 Inr pr r2 have "r2 = Inr (pkgs', ids')" by simp
    with r2 have
      "create_packages_loop libs dd_dict (pkgs @ [pkg]) (ids @ [pid]) = (lg2, Inr (pkgs', ids'))"
      by simp
    from Cons.IH [OF this] create_package_id [of lib dd_dict lg1 pkg pid] r1 Inr pr
    show ?thesis by simp
  qed
qed

lemma create_packages_ids:
  assumes "create_packages libs due_dil = (due_dil', lg, Inr (pkgs, ids))"
  shows "ids = map (\<lambda>l. ''SPDXRef-PACKAGE-'' @ lib_filename l) libs"
    and "map p_spdx_id pkgs = ids"
proof -
  let ?dd = "convert_dict_list_to_dict
               (map (\<lambda>d. d\<lparr>dd_library := rstrip_star (dd_library d)\<rparr>) due_dil)"
  obtain lg0 r0 where r0: "create_packages_loop libs ?dd [] [] = (lg0, r0)"
    by (cases "create_packages_loop libs ?dd [] []")
  with assms have "r0 = Inr (pkgs, ids)"
    by (cases r0) (simp_all add: create_packages_def Let_def)
  with r0 have "create_packages_loop libs ?dd [] [] = (lg0, Inr (pkgs, ids))" by simp
  from create_packages_loop_ids [OF this]
  show "ids = map (\<lambda>l. ''SPDXRef-PACKAGE-'' @ lib_filename l) libs" and "map p_spdx_id pkgs = ids"
    by simp_all
qed

lemma create_packages_loop_returns_iff:
  "(\<exists>lg res. create_packages_loop libs dd_dict pkgs ids = (lg, Inr res)) \<longleftrightarrow>
   (\<forall>lib \<in> set libs. licenses lib \<noteq> []
        \<and> dd_dict (lib_filename lib, lic_name (hd (licenses lib))) \<noteq> None)"
proof (induction libs arbitrary: pkgs ids)
  case Nil
  show ?case by simp
next
  case (Cons lib libs)
  obtain lg1 r1 where r1: "create_package lib dd_dict = (lg1, r1)"
    by (cases "create_package lib dd_dict")
  show ?case
  proof (cases r1)
    case (Inl e)
    with r1 have "\<not> (\<exists>lg pkg pid. create_package lib dd_dict = (lg, Inr (pkg, pid)))" by simp
    with create_package_returns_iff [of lib dd_dict]
    have "\<not> (licenses lib \<noteq> []
                 \<and> dd_dict (lib_filename lib, lic_name (hd (licenses lib))) \<noteq> None)"
      by blast
    with r1 Inl show ?thesis by auto
  next
    case (Inr pr)
    obtain pkg pid where pr: "pr = (pkg, pid)" by (cases pr)
    from r1 Inr pr have "\<exists>lg pkg pid. create_package lib dd_dict = (lg, Inr (pkg, pid))" by simp
    with create_package_returns_iff [of lib dd_dict]
    have ok: "licenses lib \<noteq> []
                 \<and> dd_dict (lib_filename lib, lic_name (hd (licenses lib))) \<noteq> None"
      by blast
    obtain lg2 r2 where
      r2: "create_packages_loop libs dd_dict (pkgs @ [pkg]) (ids @ [pid]) = (lg2, r2)"
      by (cases "create_packages_loop libs dd_dict (pkgs @ [pkg]) (ids @ [pid])")
    have "(\<exists>lg res. create_packages_loop (lib # libs) dd_dict pkgs ids = (lg, Inr res))
            \<longleftrightarrow> (\<exists>lg res. create_packages_loop libs dd_dict (pkgs @ [pkg]) (ids @ [pid]) = (lg, Inr res))"
      using r1 Inr pr r2 by simp
    with Cons.IH [of "pkgs @ [pkg]" "ids @ [pid]"] ok show ?thesis by simp
  qed
qed

lemma create_packages_returns_iff:
  "(\<exists>due_dil' lg res. create_packages libs due_dil = (due_dil', lg, Inr res)) \<longleftrightarrow>
   (\<forall>lib \<in> set libs. licenses lib \<noteq> []
        \<and> convert_dict_list_to_dict (map (\<lambda>d. d\<lparr>dd_library := rstrip_star (dd_library d)\<rparr>) due_dil)
              (lib_filename lib, lic_name (hd (licenses lib))) \<noteq> None)"
proof -
  let ?dd = "convert_dict_list_to_dict (map (\<lambda>d. d\<lparr>dd_library := rstrip_star (dd_library d)\<rparr>) due_dil)"
  obtain lg0 r0 where r0: "create_packages_loop libs ?dd [] [] = (lg0, r0)"
    by (cases "create_packages_loop libs ?dd [] []")
  have "(\<exists>due_dil' lg res. create_packages libs due_dil = (due_dil', lg, Inr res))
          \<longleftrightarrow> (\<exists>lg res. create_packages_loop libs ?dd [] [] = (lg, Inr res))"
    using r0 by (cases r0) (simp_all add: create_packages_def Let_def)
  with create_packages_loop_returns_iff [of libs ?dd "[]" "[]"] show ?thesis by blast
qed

lemma create_package_multi_license:
  assumes "licenses lib = lic # rest" and "rest \<noteq> []"
    and "dd_dict (lib_filename lib, lic_name lic) = Some d"
  shows "\<exists>lg pkg. create_package lib dd_dict = (lg, Inr (pkg, ''SPDXRef-PACKAGE-'' @ lib_filename lib))
           \<and> length (licenses_from_files pkg) = length (licenses lib)
           \<and> conc_lics pkg = Given \<lparr>full_name = lic_name lic, lic_identifier = spdxName lic\<rparr>
           \<and> license_declared pkg = conc_lics pkg
           \<and> (WARNING, ''Library '' @ lib_name lib @ '' has '' @ str_nat (length (licenses lib))
                          @ '' licenses. Using the 1st one'') \<in> set lg"
  using assms
  by (simp add: create_package_def Let_def split_beta)

lemma member_names_lower: "map (lower \<circ> fst) members = [''tv'', ''rdf'', ''xml'']"
  by (simp add: members_def lower_def lower_char_def)

lemma get_file_type_members:
  "get_file_type ''tv'' = Inr TV" "get_file_type ''rdf'' = Inr RDF" "get_file_type ''xml'' = Inr XML"
  by (simp_all add: get_file_type_def members_def upper_def upper_char_def)

lemma write_report_all:
  "snd (snd (write_report ext a doc ''all'')) =
     Inr (map (\<lambda>sfx. path_join (out_dir a)
                 (snd (replace_invalid_chars ext
                        (d_name doc @ ''-'' @ Version_str ext (d_version doc) @ ''.'' @ sfx))))
              [''tv'', ''xml'', ''xml''])"
  by (simp add: write_report_def write_file_def member_names_lower get_file_type_members
        suffix_def Let_def split_beta)

section \<open>Author resolution\<close>

text \<open>
  C1. The specification states that the author-resolution step of package creation
  returns an author or a failure indicator for every library record and never raises.
  The code raises in both situations the claim singles out. A library without license
  entries leaves \<open>author\<close> unbound at line 113 (UnboundLocalError); a library whose
  first key has no due-diligence entry, while a later key has one with an author, calls
  \<open>.get\<close> on None at line 112 (AttributeError).
\<close>

theorem author_resolution_raises:
  "create_package (foo_jar [] []) Map.empty
     = ([(DEBUG, ''Creating Package SPDXRef-PACKAGE-foo-1.0.jar'')], Inl UnboundLocalError)
   \<and> create_package (foo_jar [MIT, Apache] [])
        [(''foo-1.0.jar'', ''Apache-2.0'') \<mapsto> dd ''foo-1.0.jar'' ''Apache-2.0'' (Some ''Acme Corp'')]
     = ([(DEBUG, ''Creating Package SPDXRef-PACKAGE-foo-1.0.jar'')], Inl AttributeError)"
  by (simp add: create_package_def foo_jar_def MIT_def Apache_def)

text \<open>
  C2. The specification states that, without a due-diligence author, the originator is
  the first copyright author in input order, and that a diagnostic is logged when there
  are several. The code logs "Will return the 1st" and then pops the last element of
  the list: with the authors Alice and Bob, in this order, the originator is Bob.
\<close>

theorem copyright_author_is_last:
  "get_author_from_cr [cr_by ''Alice'', cr_by ''Bob'']
     = ([(WARNING, ''Found 2 authors on the lib. Will return the 1st'')], Some ''Bob'')
   \<and> map_sum id (\<lambda>(pkg, pid). originator pkg)
        (snd (create_package (foo_jar [MIT] [cr_by ''Alice'', cr_by ''Bob''])
                [(''foo-1.0.jar'', ''MIT'') \<mapsto> dd ''foo-1.0.jar'' ''MIT'' None]))
     = Inr (Given (Organization ''Bob'' NoAssert))"
  by (simp add: create_package_def get_author_from_cr_def foo_jar_def MIT_def cr_by_def dd_def
        str_nat.simps Let_def)

text \<open>
  C4. The specification states that the originator is the author of the first
  due-diligence match, over all license-name keys, that carries a non-empty author. The
  code reads the entry of the first key only. In the counterexample the entry of the
  first key (MIT) has no author and the entry of the second key (Apache-2.0) names
  Acme Corp: the specification's reading yields Acme Corp, the code yields Bob, the
  copyright author.
\<close>

theorem first_authored_match_counterexample:
  "spec_first_dd_author (foo_jar [MIT, Apache] [cr_by ''Bob''])
        [(''foo-1.0.jar'', ''MIT'') \<mapsto> dd ''foo-1.0.jar'' ''MIT'' None,
         (''foo-1.0.jar'', ''Apache-2.0'') \<mapsto> dd ''foo-1.0.jar'' ''Apache-2.0'' (Some ''Acme Corp'')]
     = Some ''Acme Corp''
   \<and> map_sum id (\<lambda>(pkg, pid). originator pkg)
        (snd (create_package (foo_jar [MIT, Apache] [cr_by ''Bob''])
                [(''foo-1.0.jar'', ''MIT'') \<mapsto> dd ''foo-1.0.jar'' ''MIT'' None,
                 (''foo-1.0.jar'', ''Apache-2.0'') \<mapsto> dd ''foo-1.0.jar'' ''Apache-2.0'' (Some ''Acme Corp'')]))
     = Inr (Given (Organization ''Bob'' NoAssert))"
  by (simp add: spec_first_dd_author_def List.map_filter_def create_package_def
        get_author_from_cr_def foo_jar_def MIT_def Apache_def cr_by_def dd_def Let_def)

text \<open>
  C4, as the code has it: when the first license-name key of a library has a
  due-diligence entry with a non-empty author, package creation returns a package whose
  originator and supplier are the organization of that author, whatever the copyright
  references hold. In this case the specification's reading names the same author.
\<close>

theorem originator_from_first_dd_entry:
  assumes "licenses lib = lic # rest"
    and "dd_dict (lib_filename lib, lic_name lic) = Some d"
    and "dd_author d = Some a" and "a \<noteq> []"
  shows "\<exists>lg pkg. create_package lib dd_dict = (lg, Inr (pkg, ''SPDXRef-PACKAGE-'' @ lib_filename lib))
           \<and> originator pkg = Given (Organization a NoAssert)
           \<and> supplier pkg = Given (Organization a NoAssert)
           \<and> spec_first_dd_author lib dd_dict = Some a"
proof -
  from assms have t: "truthy (dd_author d)" by simp
  from create_package_first_key_found [of lib lic rest dd_dict d] assms(1,2) t
  obtain lg pkg where
    r: "create_package lib dd_dict = (lg, Inr (pkg, ''SPDXRef-PACKAGE-'' @ lib_filename lib))"
    and s: "supplier pkg = originator pkg"
    and o: "originator pkg = Given (Organization (the (dd_author d)) NoAssert)"
    by auto
  from assms have "spec_first_dd_author lib dd_dict = Some a"
    by (simp add: spec_first_dd_author_def List.map_filter_def)
  with r s o assms(3) show ?thesis by simp
qed

theorem originator_from_first_dd_entry_witness:
  "licenses (foo_jar [MIT, Apache] [cr_by ''Bob'']) = MIT # [Apache]
   \<and> [(''foo-1.0.jar'', ''MIT'') \<mapsto> dd ''foo-1.0.jar'' ''MIT'' (Some ''Acme Corp'')]
        (lib_filename (foo_jar [MIT, Apache] [cr_by ''Bob'']), lic_name MIT)
       = Some (dd ''foo-1.0.jar'' ''MIT'' (Some ''Acme Corp''))
   \<and> dd_author (dd ''foo-1.0.jar'' ''MIT'' (Some ''Acme Corp'')) = Some ''Acme Corp''
   \<and> map_sum id (\<lambda>(pkg, pid). originator pkg)
        (snd (create_package (foo_jar [MIT, Apache] [cr_by ''Bob''])
                [(''foo-1.0.jar'', ''MIT'') \<mapsto> dd ''foo-1.0.jar'' ''MIT'' (Some ''Acme Corp'')]))
     = Inr (Given (Organization ''Acme Corp'' NoAssert))"
proof -
  let ?lib = "foo_jar [MIT, Apache] [cr_by ''Bob'']"
  let ?d = "dd ''foo-1.0.jar'' ''MIT'' (Some ''Acme Corp'')"
  let ?dict = "[(''foo-1.0.jar'', ''MIT'') \<mapsto> ?d]"
  have h1: "licenses ?lib = MIT # [Apache]" by (simp add: foo_jar_def)
  have h2: "?dict (lib_filename ?lib, lic_name MIT) = Some ?d" by (simp add: foo_jar_def MIT_def)
  have h3: "dd_author ?d = Some ''Acme Corp''" by (simp add: dd_def)
  have h4: "''Acme Corp'' \<noteq> []" by simp
  from originator_from_first_dd_entry [of ?lib MIT "[Apache]" ?dict ?d "''Acme Corp''"] h1 h2 h3 h4
  show ?thesis by auto
qed

section \<open>Licenses\<close>

text \<open>
  C5. The specification states that a library record with zero license entries yields a
  package whose declared and concluded license are the "none" marker, with a diagnostic.
  Lines 146-150 are written for that case, but the code never reaches them: with no
  license entry the list of due-diligence lookups is empty, \<open>author\<close> stays unbound
  and line 113 raises UnboundLocalError. No package is built and the only log record is
  the debug line that opens package creation.
\<close>

theorem no_license_package_raises:
  "create_package (foo_jar [] [cr_by ''Alice''])
        [(''foo-1.0.jar'', ''MIT'') \<mapsto> dd ''foo-1.0.jar'' ''MIT'' (Some ''Acme Corp'')]
     = ([(DEBUG, ''Creating Package SPDXRef-PACKAGE-foo-1.0.jar'')], Inl UnboundLocalError)
   \<and> snd (snd (create_packages [foo_jar [] [cr_by ''Alice'']] example_due_dil))
     = Inl UnboundLocalError"
  by (simp add: create_packages_def create_package_no_licenses foo_jar_def)

text \<open>
  C6. The specification states that every library record with more than one license
  entry yields a package whose declared and concluded license are the first entry, whose
  licenses-from-files list keeps all entries, with a diagnostic. The scenario of section 8
  of the specification (foo-1.0.jar with the licenses MIT and Apache-2.0 and no
  due-diligence match) makes the code raise AttributeError at line 112, before any
  license is looked at. Lemma \<open>create_package_multi_license\<close> shows that the statement
  holds whenever the first key has a due-diligence entry.
\<close>

theorem multi_license_package_raises:
  "create_package
     (foo_jar [\<lparr>lic_name = ''MIT'', spdxName = None\<rparr>, \<lparr>lic_name = ''Apache-2.0'', spdxName = None\<rparr>] [])
     Map.empty
     = ([(DEBUG, ''Creating Package SPDXRef-PACKAGE-foo-1.0.jar'')], Inl AttributeError)
   \<and> snd (snd (create_packages
        [foo_jar [\<lparr>lic_name = ''MIT'', spdxName = None\<rparr>, \<lparr>lic_name = ''Apache-2.0'', spdxName = None\<rparr>] []]
        []))
     = Inl AttributeError"
  by (simp add: create_packages_def create_package_def convert_dict_list_to_dict_def foo_jar_def)

section \<open>Output files\<close>

text \<open>
  C3. The specification states that the format "all" produces three output paths with
  pairwise distinct suffixes and a shared base name. The code returns a list of three
  paths, but the members RDF and XML of the enumeration both carry the suffix "xml":
  the second and third path are the same file, and the XML writer opens, and so
  truncates, the file that the RDF writer has just written.
\<close>

theorem all_formats_paths_coincide:
  "snd (snd (write_report example_externals (example_args []) example_doc ''all''))
     = Inr [''/out/WhiteSource Demo SBOM report-SPDX-2.2.tv'',
            ''/out/WhiteSource Demo SBOM report-SPDX-2.2.xml'',
            ''/out/WhiteSource Demo SBOM report-SPDX-2.2.xml'']
   \<and> fst (snd (write_report example_externals (example_args []) example_doc ''all''))
     = [(''/out/WhiteSource Demo SBOM report-SPDX-2.2.tv'', ''spdx.writers.tagvalue''),
        (''/out/WhiteSource Demo SBOM report-SPDX-2.2.xml'', ''spdx.writers.rdf''),
        (''/out/WhiteSource Demo SBOM report-SPDX-2.2.xml'', ''spdx.writers.xml'')]
   \<and> map suffix [TV, RDF, XML] = [''tv'', ''xml'', ''xml'']"
  by (simp add: write_report_def write_file_def member_names_lower get_file_type_members
        suffix_def module_classpath_def
        replace_invalid_chars_def replace_char_def path_join_def
        example_externals_def example_args_def example_doc_def create_document_def
        str_nat.simps Let_def split_beta)

section \<open>Facts about the document and the due-diligence list\<close>

lemma foldl_append_map: "foldl (\<lambda>acc x. acc @ [g x]) acc xs = acc @ map g xs"
  by (induction xs arbitrary: acc) simp_all

lemma assembled_document:
  assumes "create_sbom_doc_assemble ext a scope_token = (lg, Inr doc)"
  shows "\<exists>due_dil' lg3 pkgs ids.
           create_packages (get_licenses (conn a) scope_token) (get_due_diligence (conn a) scope_token)
             = (due_dil', lg3, Inr (pkgs, ids))
           \<and> doc = \<lparr>d_name = ''WhiteSource '' @ get_scope_name_by_token (conn a) scope_token @ '' SBOM report'',
                     d_namespace = dict_get (extra_conf a) ''namespace''
                                     ''http://[CreatorWebsite]/[pathToSpdx]/[DocumentName]-[UUID]'',
                     d_spdx_id = ''SPDXRef-DOCUMENT'',
                     d_version = (2, 2),
                     data_license = License_from_identifier ext ''CC0-1.0'',
                     d_creation_info =
                       \<lparr>created = Some (utc_now ext),
                        creators = [Organization (get_name (conn a))
                                      (Given (dict_get (extra_conf a) ''org_email'' ''ORG_EMAIL'')),
                                    Tool ''White Source SBOM Report Generator'',
                                    Person (dict_get (extra_conf a) ''person'' ''PERSON'')
                                      (Given (dict_get (extra_conf a) ''person_email'' ''PERSON_EMAIL''))]\<rparr>,
                     d_packages = pkgs,
                     d_relationships =
                       map (\<lambda>pkg_id. Relationship (pkg_id @ '' DESCRIBED_BY SPDXRef-DOCUMENT'')) ids\<rparr>"
proof -
  let ?cp = "create_packages (get_licenses (conn a) scope_token) (get_due_diligence (conn a) scope_token)"
  obtain due_dil' lg3 r where cp: "?cp = (due_dil', lg3, r)" by (cases ?cp)
  show ?thesis
  proof (cases r)
    case (Inl e)
    with assms cp show ?thesis
      by (simp add: create_sbom_doc_assemble_def Let_def split_beta)
  next
    case (Inr pr)
    obtain pkgs ids where pr: "pr = (pkgs, ids)" by (cases pr)
    from assms cp Inr pr show ?thesis
      by (auto simp: create_sbom_doc_assemble_def create_document_def create_creation_info_def
            Let_def split_beta foldl_append_map)
  qed
qed

lemma rstrip_star_decompose: "\<exists>n. s = rstrip_star s @ replicate n CHR ''*''"
proof -
  let ?p = "\<lambda>c. c = CHR ''*''"
  let ?t = "rev (takeWhile ?p (rev s))"
  have "rev s = takeWhile ?p (rev s) @ dropWhile ?p (rev s)" by simp
  then have "s = rev (dropWhile ?p (rev s)) @ ?t"
    by (metis rev_append rev_rev_ident)
  moreover have "\<forall>y \<in> set ?t. y = CHR ''*''" by (auto dest: set_takeWhileD)
  then have "replicate (length ?t) CHR ''*'' = ?t" by (rule replicate_length_same)
  ultimately have "s = rstrip_star s @ replicate (length ?t) CHR ''*''"
    by (simp add: rstrip_star_def)
  then show ?thesis ..
qed

lemma rstrip_star_no_trailing: "rstrip_star s = [] \<or> last (rstrip_star s) \<noteq> CHR ''*''"
proof (cases "dropWhile (\<lambda>c. c = CHR ''*'') (rev s)")
  case Nil
  then show ?thesis by (simp add: rstrip_star_def)
next
  case (Cons c cs)
  from hd_dropWhile [of "\<lambda>c. c = CHR ''*''" "rev s"] Cons have "c \<noteq> CHR ''*''" by simp
  with Cons show ?thesis by (simp add: rstrip_star_def)
qed

lemma rstrip_star_fixed: "rstrip_star s = s \<longleftrightarrow> (s = [] \<or> last s \<noteq> CHR ''*'')"
proof (cases s rule: rev_cases)
  case Nil
  then show ?thesis by (simp add: rstrip_star_def)
next
  case (snoc ys y)
  show ?thesis
  proof (cases "y = CHR ''*''")
    case True
    have "length (rstrip_star s) \<le> length ys"
      using snoc True length_dropWhile_le [of "\<lambda>c. c = CHR ''*''" "rev ys"]
      by (simp add: rstrip_star_def)
    with snoc True show ?thesis by auto
  next
    case False
    with snoc show ?thesis by (simp add: rstrip_star_def)
  qed
qed

lemma dd_library_update_fixed:
  "(d\<lparr>dd_library := rstrip_star (dd_library d)\<rparr> = d) \<longleftrightarrow> rstrip_star (dd_library d) = dd_library d"
  by (cases d) simp

lemma map_fixed_iff: "map f xs = xs \<longleftrightarrow> (\<forall>x\<in>set xs. f x = x)"
  by (induction xs) auto

lemma assemble_returns:
  assumes "create_packages (get_licenses (conn a) scope_token) (get_due_diligence (conn a) scope_token)
             = (due_dil', lg3, Inr (pkgs, ids))"
  shows "\<exists>lg doc. create_sbom_doc_assemble ext a scope_token = (lg, Inr doc)"
  using assms by (simp add: create_sbom_doc_assemble_def Let_def split_beta)

lemma assemble_raises:
  assumes "create_packages (get_licenses (conn a) scope_token) (get_due_diligence (conn a) scope_token)
             = (due_dil', lg3, Inl e)"
  shows "snd (create_sbom_doc_assemble ext a scope_token) = Inl e"
  using assms by (simp add: create_sbom_doc_assemble_def Let_def split_beta)

lemma distinct_iff_each_once:
  "distinct xs \<longleftrightarrow> (\<forall>x \<in> set xs. length (filter (\<lambda>y. y = x) xs) = 1)"
proof (induction xs)
  case Nil
  show ?case by simp
next
  case (Cons a xs)
  show ?case
  proof (cases "a \<in> set xs")
    case True
    then have "filter (\<lambda>y. y = a) xs \<noteq> []" by (simp add: filter_empty_conv)
    then have "length (filter (\<lambda>y. y = a) (a # xs)) \<noteq> 1" by simp
    with True show ?thesis by auto
  next
    case False
    then have e: "filter (\<lambda>y. y = a) xs = []" by (auto simp: filter_empty_conv)
    from False have r: "\<And>x. x \<in> set xs \<Longrightarrow> a \<noteq> x" by blast
    have "(\<forall>x \<in> set (a # xs). length (filter (\<lambda>y. y = x) (a # xs)) = 1)
            \<longleftrightarrow> (\<forall>x \<in> set xs. length (filter (\<lambda>y. y = x) xs) = 1)"
      using e r by auto
    with False Cons.IH show ?thesis by simp
  qed
qed

lemma count_map_inj:
  assumes "inj g"
  shows "length (filter (\<lambda>r. r = g x) (map g xs)) = length (filter (\<lambda>y. y = x) xs)"
proof -
  from assms have "(\<lambda>y. g y = g x) = (\<lambda>y. y = x)" by (auto simp: inj_eq)
  then show ?thesis by (simp add: filter_map comp_def)
qed

lemma inj_described_by: "inj (\<lambda>pkg_id. Relationship (pkg_id @ '' DESCRIBED_BY SPDXRef-DOCUMENT''))"
  by (rule injI) simp

lemma package_ids_distinct:
  assumes "create_packages libs due_dil = (due_dil', lg, Inr (pkgs, ids))"
  shows "distinct ids \<longleftrightarrow> distinct (map lib_filename libs)"
proof -
  from create_packages_ids(1) [OF assms]
  have ids: "ids = map ((@) ''SPDXRef-PACKAGE-'') (map lib_filename libs)" by simp
  have "inj_on ((@) ''SPDXRef-PACKAGE-'') (set (map lib_filename libs))"
    by (rule inj_onI) simp
  then show ?thesis unfolding ids by (metis distinct_map)
qed

section \<open>Package identifiers\<close>

text \<open>
  C7. The specification states that package identifiers have the form
  PACKAGE-<library-filename> and that the identifiers of two distinct libraries of a
  document always differ. The identifier is built from the filename alone: two distinct
  library records with the same filename (here they differ in name and checksum) get the
  same identifier, which reads SPDXRef-PACKAGE-<library-filename>.
\<close>

theorem package_ids_unique_counterexample:
  "foo_jar [MIT] [] \<noteq> foo_jar_rebuilt
   \<and> map_sum id snd (snd (snd (create_packages [foo_jar [MIT] [], foo_jar_rebuilt] example_due_dil)))
     = Inr [''SPDXRef-PACKAGE-foo-1.0.jar'', ''SPDXRef-PACKAGE-foo-1.0.jar'']"
  by (simp add: create_packages_def create_package_def convert_dict_list_to_dict_def
        rstrip_star_def foo_jar_def foo_jar_rebuilt_def MIT_def example_due_dil_def dd_def
        Let_def split_beta)

text \<open>
  C7, as the code has it: whenever package creation returns, the list of identifiers is
  the list of the library filenames, in order, each prefixed with SPDXRef-PACKAGE-; every
  package carries its identifier; and the identifiers are pairwise distinct exactly when
  the filenames are. Lemma \<open>create_packages_returns_iff\<close> says when it returns.
\<close>

theorem package_ids_from_filenames:
  assumes "create_packages libs due_dil = (due_dil', lg, Inr (pkgs, ids))"
  shows "ids = map (\<lambda>l. ''SPDXRef-PACKAGE-'' @ lib_filename l) libs
       \<and> map p_spdx_id pkgs = ids
       \<and> (distinct ids \<longleftrightarrow> distinct (map lib_filename libs))"
proof -
  from create_packages_ids [OF assms]
  have ids: "ids = map (\<lambda>l. ''SPDXRef-PACKAGE-'' @ lib_filename l) libs"
    and pk: "map p_spdx_id pkgs = ids" by simp_all
  have "map (\<lambda>l. ''SPDXRef-PACKAGE-'' @ lib_filename l) libs
          = map ((@) ''SPDXRef-PACKAGE-'') (map lib_filename libs)" by simp
  moreover have "inj_on ((@) ''SPDXRef-PACKAGE-'') (set (map lib_filename libs))"
    by (rule inj_onI) simp
  ultimately have "distinct ids \<longleftrightarrow> distinct (map lib_filename libs)"
    unfolding ids by (metis distinct_map)
  with ids pk show ?thesis by simp
qed

theorem package_ids_from_filenames_witness:
  "map_sum id snd (snd (snd (create_packages [foo_jar [MIT] [], bar_jar] example_due_dil)))
     = Inr [''SPDXRef-PACKAGE-foo-1.0.jar'', ''SPDXRef-PACKAGE-bar-2.0.jar'']
   \<and> distinct [''SPDXRef-PACKAGE-foo-1.0.jar'', ''SPDXRef-PACKAGE-bar-2.0.jar'']
   \<and> distinct (map lib_filename [foo_jar [MIT] [], bar_jar])"
proof -
  have "\<exists>due_dil' lg pkgs ids.
          create_packages [foo_jar [MIT] [], bar_jar] example_due_dil = (due_dil', lg, Inr (pkgs, ids))"
    by (simp add: create_packages_def create_package_def convert_dict_list_to_dict_def
          rstrip_star_def foo_jar_def bar_jar_def MIT_def Apache_def example_due_dil_def dd_def
          Let_def split_beta)
  then obtain due_dil' lg pkgs ids where
    h: "create_packages [foo_jar [MIT] [], bar_jar] example_due_dil = (due_dil', lg, Inr (pkgs, ids))"
    by blast
  from package_ids_from_filenames [OF h] h show ?thesis
    by (simp add: foo_jar_def bar_jar_def)
qed

section \<open>Relationships of the assembled document\<close>

text \<open>
  C8. The specification states that in every assembled document each package is linked
  by exactly one relationship to the document's identifier, in package order. The code
  appends one relationship per package identifier, and identifiers repeat when filenames
  do: for two distinct libraries with the filename foo-1.0.jar the document holds two
  distinct packages and the relationship
  "SPDXRef-PACKAGE-foo-1.0.jar DESCRIBED\_BY SPDXRef-DOCUMENT" twice, so each of the two
  packages is named by two relationships.
\<close>

theorem one_relationship_per_package_counterexample:
  "map_sum id
     (\<lambda>doc. map (\<lambda>p. length (filter (\<lambda>r. r = Relationship (p_spdx_id p @ '' DESCRIBED_BY SPDXRef-DOCUMENT''))
                                  (d_relationships doc)))
                (d_packages doc))
     (snd (create_sbom_doc_assemble example_externals
             (example_args [foo_jar [MIT] [], foo_jar_rebuilt]) ''token''))
     = Inr [2, 2]
   \<and> map_sum id (\<lambda>doc. distinct (d_packages doc))
     (snd (create_sbom_doc_assemble example_externals
             (example_args [foo_jar [MIT] [], foo_jar_rebuilt]) ''token''))
     = Inr True"
  by (simp add: create_sbom_doc_assemble_def create_document_def create_creation_info_def
        create_packages_def create_package_def convert_dict_list_to_dict_def rstrip_star_def
        example_args_def example_conn_def example_externals_def example_due_dil_def
        foo_jar_def foo_jar_rebuilt_def MIT_def dd_def dict_get_def Let_def split_beta)

text \<open>
  C8, as the code has it: in every assembled document the relationship list is the
  package list mapped, in order, to the relationship
  "<package id> DESCRIBED\_BY SPDXRef-DOCUMENT": one relationship is made per package, at
  the same position, pointing at the fixed identifier of the document. Every package is
  named by exactly one relationship of the list if and only if the filenames of the
  libraries are pairwise distinct. The document is the one built by lines 32-48 of
  \<open>create_sbom_doc\<close>.
\<close>

theorem relationships_mirror_packages:
  assumes "create_sbom_doc_assemble ext a scope_token = (lg, Inr doc)"
  shows "d_spdx_id doc = ''SPDXRef-DOCUMENT''
       \<and> d_relationships doc
           = map (\<lambda>p. Relationship (p_spdx_id p @ '' DESCRIBED_BY '' @ d_spdx_id doc)) (d_packages doc)
       \<and> length (d_relationships doc) = length (d_packages doc)
       \<and> ((\<forall>p \<in> set (d_packages doc).
              length (filter (\<lambda>r. r = Relationship (p_spdx_id p @ '' DESCRIBED_BY '' @ d_spdx_id doc))
                             (d_relationships doc)) = 1)
            \<longleftrightarrow> distinct (map lib_filename (get_licenses (conn a) scope_token)))"
proof -
  let ?g = "\<lambda>pkg_id. Relationship (pkg_id @ '' DESCRIBED_BY SPDXRef-DOCUMENT'')"
  from assembled_document [OF assms] obtain due_dil' lg3 pkgs ids where
    cp: "create_packages (get_licenses (conn a) scope_token) (get_due_diligence (conn a) scope_token)
           = (due_dil', lg3, Inr (pkgs, ids))"
    and id: "d_spdx_id doc = ''SPDXRef-DOCUMENT''"
    and pk: "d_packages doc = pkgs"
    and rel: "d_relationships doc = map ?g ids"
    by auto
  from create_packages_ids(2) [OF cp] have ids: "ids = map p_spdx_id pkgs" by simp
  from package_ids_distinct [OF cp]
  have dist: "distinct ids \<longleftrightarrow> distinct (map lib_filename (get_licenses (conn a) scope_token))" .
  have c: "\<And>p. length (filter (\<lambda>r. r = ?g (p_spdx_id p)) (map ?g ids))
                  = length (filter (\<lambda>y. y = p_spdx_id p) ids)"
    by (rule count_map_inj [OF inj_described_by])
  have "(\<forall>p \<in> set pkgs. length (filter (\<lambda>r. r = ?g (p_spdx_id p)) (map ?g ids)) = 1)
          \<longleftrightarrow> (\<forall>p \<in> set pkgs. length (filter (\<lambda>y. y = p_spdx_id p) ids) = 1)"
    unfolding c by (rule refl)
  also have "\<dots> \<longleftrightarrow> (\<forall>x \<in> set ids. length (filter (\<lambda>y. y = x) ids) = 1)"
    unfolding ids by simp
  also have "\<dots> \<longleftrightarrow> distinct ids" by (simp only: distinct_iff_each_once [symmetric])
  finally have "(\<forall>p \<in> set pkgs. length (filter (\<lambda>r. r = ?g (p_spdx_id p)) (map ?g ids)) = 1)
                  \<longleftrightarrow> distinct (map lib_filename (get_licenses (conn a) scope_token))"
    using dist by simp
  with id pk rel ids show ?thesis by simp
qed

theorem relationships_mirror_packages_witness:
  "map_sum id d_relationships
     (snd (create_sbom_doc_assemble example_externals (example_args [foo_jar [MIT] [], bar_jar]) ''token''))
     = Inr [Relationship ''SPDXRef-PACKAGE-foo-1.0.jar DESCRIBED_BY SPDXRef-DOCUMENT'',
            Relationship ''SPDXRef-PACKAGE-bar-2.0.jar DESCRIBED_BY SPDXRef-DOCUMENT'']
   \<and> map_sum id (\<lambda>doc. map p_spdx_id (d_packages doc))
     (snd (create_sbom_doc_assemble example_externals (example_args [foo_jar [MIT] [], bar_jar]) ''token''))
     = Inr [''SPDXRef-PACKAGE-foo-1.0.jar'', ''SPDXRef-PACKAGE-bar-2.0.jar'']
   \<and> distinct (map lib_filename
        (get_licenses (conn (example_args [foo_jar [MIT] [], bar_jar])) ''token''))"
proof -
  let ?r = "create_sbom_doc_assemble example_externals (example_args [foo_jar [MIT] [], bar_jar]) ''token''"
  have "\<exists>lg doc. ?r = (lg, Inr doc)
          \<and> map p_spdx_id (d_packages doc) = [''SPDXRef-PACKAGE-foo-1.0.jar'', ''SPDXRef-PACKAGE-bar-2.0.jar'']"
    by (simp add: create_sbom_doc_assemble_def create_document_def create_creation_info_def
          create_packages_def create_package_def convert_dict_list_to_dict_def rstrip_star_def
          example_args_def example_conn_def example_externals_def example_due_dil_def
          foo_jar_def bar_jar_def MIT_def Apache_def dd_def dict_get_def Let_def split_beta)
  then obtain lg doc where h: "?r = (lg, Inr doc)"
    and p: "map p_spdx_id (d_packages doc) = [''SPDXRef-PACKAGE-foo-1.0.jar'', ''SPDXRef-PACKAGE-bar-2.0.jar'']"
    by auto
  have "map (\<lambda>p. Relationship (p_spdx_id p @ '' DESCRIBED_BY '' @ d_spdx_id doc)) (d_packages doc)
          = map (\<lambda>i. Relationship (i @ '' DESCRIBED_BY '' @ d_spdx_id doc))
              (map p_spdx_id (d_packages doc))"
    by (simp add: comp_def)
  moreover have "distinct (map lib_filename
        (get_licenses (conn (example_args [foo_jar [MIT] [], bar_jar])) ''token''))"
    by (simp add: example_args_def example_conn_def foo_jar_def bar_jar_def)
  ultimately show ?thesis using relationships_mirror_packages [OF h] p h by simp
qed

section \<open>Configuration\<close>

text \<open>
  C9. The specification states that configuration loading never aborts the run. The
  \<open>try\<close> of \<open>init\<close> has two handlers, for FileNotFoundError and JSONDecodeError. A
  configuration path that is a directory, or a file whose bytes do not decode, which is
  not parseable either, raises an exception that neither handler catches: \<open>init\<close>
  raises, and with it the run.
\<close>

theorem configuration_never_aborts_counterexample:
  "init (runtime_raising UnicodeDecodeError) (example_args [foo_jar [MIT] [], bar_jar])
     = ([], Inl UnicodeDecodeError)
   \<and> init (runtime_raising IsADirectoryError) (example_args [foo_jar [MIT] [], bar_jar])
     = ([], Inl IsADirectoryError)"
  by (simp add: init_def runtime_raising_def)

text \<open>
  C9, as the code has it: when opening the configuration file raises FileNotFoundError,
  \<open>init\<close> logs a warning; when the text of the file is read and \<open>json.loads\<close> raises
  JSONDecodeError, \<open>init\<close> logs an error. In both cases \<open>init\<close> returns with an empty
  configuration and each of the four recognized keys reads as its placeholder default.
  Processing continues: wherever package creation returns for the data of the scope,
  the document is assembled, and it carries the placeholder namespace and the
  placeholder creators.
\<close>

theorem configuration_defaults:
  assumes "open_read rt (extra a) = Inl FileNotFoundError
           \<or> (\<exists>text. open_read rt (extra a) = Inr text \<and> json_loads rt text = None)"
    and "create_packages (get_licenses (conn a) scope_token) (get_due_diligence (conn a) scope_token)
           = (due_dil', lg3, Inr (pkgs, ids))"
  shows "init rt a =
           ([if open_read rt (extra a) = Inl FileNotFoundError
             then (WARNING, extra a @ '' configuration file was not found'')
             else (ERROR, ''Unable to parse file: '' @ extra a)],
            Inr (a\<lparr>extra_conf := Map.empty\<rparr>))
       \<and> dict_get (extra_conf (a\<lparr>extra_conf := Map.empty\<rparr>)) ''namespace''
            ''http://[CreatorWebsite]/[pathToSpdx]/[DocumentName]-[UUID]''
           = ''http://[CreatorWebsite]/[pathToSpdx]/[DocumentName]-[UUID]''
       \<and> dict_get (extra_conf (a\<lparr>extra_conf := Map.empty\<rparr>)) ''org_email'' ''ORG_EMAIL'' = ''ORG_EMAIL''
       \<and> dict_get (extra_conf (a\<lparr>extra_conf := Map.empty\<rparr>)) ''person'' ''PERSON'' = ''PERSON''
       \<and> dict_get (extra_conf (a\<lparr>extra_conf := Map.empty\<rparr>)) ''person_email'' ''PERSON_EMAIL''
           = ''PERSON_EMAIL''
       \<and> (\<exists>lg doc. create_sbom_doc_assemble ext (a\<lparr>extra_conf := Map.empty\<rparr>) scope_token = (lg, Inr doc)
             \<and> d_namespace doc = ''http://[CreatorWebsite]/[pathToSpdx]/[DocumentName]-[UUID]''
             \<and> creators (d_creation_info doc)
                 = [Organization (get_name (conn a)) (Given ''ORG_EMAIL''),
                    Tool ''White Source SBOM Report Generator'',
                    Person ''PERSON'' (Given ''PERSON_EMAIL'')]
             \<and> d_packages doc = pkgs)"
proof -
  let ?a = "a\<lparr>extra_conf := Map.empty\<rparr>"
  from assms(1) have i: "init rt a =
           ([if open_read rt (extra a) = Inl FileNotFoundError
             then (WARNING, extra a @ '' configuration file was not found'')
             else (ERROR, ''Unable to parse file: '' @ extra a)],
            Inr ?a)"
    by (auto simp: init_def)
  from assms(2) have cp: "create_packages (get_licenses (conn ?a) scope_token)
                            (get_due_diligence (conn ?a) scope_token)
                          = (due_dil', lg3, Inr (pkgs, ids))" by simp
  from assemble_returns [OF cp] obtain lg doc where
    h: "create_sbom_doc_assemble ext ?a scope_token = (lg, Inr doc)" by blast
  from assembled_document [OF h] cp
  have "d_namespace doc = ''http://[CreatorWebsite]/[pathToSpdx]/[DocumentName]-[UUID]''"
    and "creators (d_creation_info doc)
           = [Organization (get_name (conn a)) (Given ''ORG_EMAIL''),
              Tool ''White Source SBOM Report Generator'',
              Person ''PERSON'' (Given ''PERSON_EMAIL'')]"
    and "d_packages doc = pkgs"
    by (auto simp: dict_get_def)
  with i h show ?thesis by (simp add: dict_get_def)
qed

theorem configuration_defaults_witness:
  "init runtime_malformed (example_args [foo_jar [MIT] [], bar_jar])
     = ([(ERROR, ''Unable to parse file: sbom_extra.json'')],
        Inr ((example_args [foo_jar [MIT] [], bar_jar])\<lparr>extra_conf := Map.empty\<rparr>))
   \<and> map_sum id d_namespace
       (snd (create_sbom_doc_assemble example_externals
               ((example_args [foo_jar [MIT] [], bar_jar])\<lparr>extra_conf := Map.empty\<rparr>) ''token''))
     = Inr ''http://[CreatorWebsite]/[pathToSpdx]/[DocumentName]-[UUID]''
   \<and> dict_get (extra_conf (example_args [foo_jar [MIT] [], bar_jar])) ''namespace''
        ''http://[CreatorWebsite]/[pathToSpdx]/[DocumentName]-[UUID]''
     = ''http://example.org/sbom''"
proof -
  let ?a = "example_args [foo_jar [MIT] [], bar_jar]"
  have o: "open_read runtime_malformed (extra ?a) = Inl FileNotFoundError
           \<or> (\<exists>text. open_read runtime_malformed (extra ?a) = Inr text
                     \<and> json_loads runtime_malformed text = None)"
    by (simp add: runtime_malformed_def)
  have "\<exists>due_dil' lg3 pkgs ids.
          create_packages (get_licenses (conn ?a) ''token'') (get_due_diligence (conn ?a) ''token'')
            = (due_dil', lg3, Inr (pkgs, ids))"
    by (simp add: create_packages_def create_package_def convert_dict_list_to_dict_def
          rstrip_star_def example_args_def example_conn_def example_due_dil_def
          foo_jar_def bar_jar_def MIT_def Apache_def dd_def Let_def split_beta)
  then obtain due_dil' lg3 pkgs ids where
    cp: "create_packages (get_licenses (conn ?a) ''token'') (get_due_diligence (conn ?a) ''token'')
           = (due_dil', lg3, Inr (pkgs, ids))"
    by blast
  from configuration_defaults [OF o cp, of example_externals] show ?thesis
    by (auto simp: example_args_def runtime_malformed_def dict_get_def)
qed

section \<open>The due-diligence list after package creation\<close>

text \<open>
  C10. \<open>create_packages\<close> changes the due-diligence list it is given: after the call,
  whether or not a package raised, every entry has its library field replaced by the
  same string without its trailing asterisks (the old string is the new one followed by
  asterisks only, and the new one does not end in an asterisk), the other fields are
  untouched, and the list differs from the one passed in exactly when some library
  field ended in an asterisk.
\<close>

theorem due_diligence_mutated_in_place:
  "fst (create_packages libs due_dil)
     = map (\<lambda>d. d\<lparr>dd_library := rstrip_star (dd_library d)\<rparr>) due_dil
   \<and> (\<forall>d \<in> set due_dil.
        (\<exists>n. dd_library d = rstrip_star (dd_library d) @ replicate n CHR ''*'')
        \<and> (rstrip_star (dd_library d) = [] \<or> last (rstrip_star (dd_library d)) \<noteq> CHR ''*''))
   \<and> (fst (create_packages libs due_dil) \<noteq> due_dil
        \<longleftrightarrow> (\<exists>d \<in> set due_dil. dd_library d \<noteq> [] \<and> last (dd_library d) = CHR ''*''))"
proof -
  have m: "fst (create_packages libs due_dil)
             = map (\<lambda>d. d\<lparr>dd_library := rstrip_star (dd_library d)\<rparr>) due_dil"
    by (simp add: create_packages_def Let_def split_beta)
  have "map (\<lambda>d. d\<lparr>dd_library := rstrip_star (dd_library d)\<rparr>) due_dil = due_dil
          \<longleftrightarrow> (\<forall>d \<in> set due_dil. dd_library d = [] \<or> last (dd_library d) \<noteq> CHR ''*'')"
    by (simp add: map_fixed_iff dd_library_update_fixed rstrip_star_fixed)
  with m have c: "fst (create_packages libs due_dil) \<noteq> due_dil
        \<longleftrightarrow> (\<exists>d \<in> set due_dil. dd_library d \<noteq> [] \<and> last (dd_library d) = CHR ''*'')"
    by auto
  from m c rstrip_star_decompose rstrip_star_no_trailing show ?thesis by blast
qed

theorem due_diligence_mutated_in_place_witness:
  "fst (create_packages [foo_jar [] []] example_due_dil)
     = [dd ''foo-1.0.jar'' ''MIT'' (Some ''Acme Corp''), dd ''bar-2.0.jar'' ''Apache-2.0'' None]
   \<and> fst (create_packages [foo_jar [] []] example_due_dil) \<noteq> example_due_dil
   \<and> snd (snd (create_packages [foo_jar [] []] example_due_dil)) = Inl UnboundLocalError"
proof -
  have e: "\<exists>d \<in> set example_due_dil. dd_library d \<noteq> [] \<and> last (dd_library d) = CHR ''*''"
    by (simp add: example_due_dil_def dd_def)
  have r: "snd (snd (create_packages [foo_jar [] []] example_due_dil)) = Inl UnboundLocalError"
    by (simp add: create_packages_def create_package_no_licenses foo_jar_def)
  from due_diligence_mutated_in_place [of "[foo_jar [] []]" example_due_dil] e r
  show ?thesis by (simp add: example_due_dil_def dd_def rstrip_star_def)
qed


end
